theory Spec2Isabelle
  imports Main "HOL-Library.Word"
begin

section \<open>Data model of pa2.c\<close>

text \<open>
  pa2.c works on three global objects: the pointer \<open>current\<close>, the list head
  \<open>readyqueue\<close> and the table \<open>resources[NR_RESOURCES]\<close>. The policies written after
  the FIFO one iterate a list head called \<open>runqueue\<close> through the member \<open>run_list\<close>.
  The headers that declare \<open>struct process\<close>, \<open>struct resource\<close>, \<open>struct scheduler\<close>
  and the list primitives are not part of the file, so the records below hold
  exactly the members that pa2.c reads or writes.

  A \<open>struct process *\<close> is a \<open>pid\<close>; the processes themselves live in the store
  \<open>procs\<close>, so that a write through one pointer (\<open>waiter->status = ...\<close>) is seen
  through every queue that holds the same process. An intrusive list is the list of
  the pids linked on it, head first; that is what the C list is as long as no
  process is linked twice through the same member, the state in which the functions
  below are called (\<open>list_add_tail\<close> is only applied to a process that
  \<open>fifo_schedule\<close> or \<open>fcfs_release\<close> has unlinked before). \<open>NULL\<close> is \<open>None\<close>.
\<close>

type_synonym pid = nat

text \<open>
  The status enumeration comes from process.h. pa2.c names \<open>PROCESS_READY\<close> and
  \<open>PROCESS_WAIT\<close>; the running and the exited state stand beside them.
\<close>

datatype process_status = PROCESS_READY | PROCESS_RUNNING | PROCESS_WAIT | PROCESS_EXIT

text \<open>The object behind \<open>p->lock\<close>; pa2.c reads only its \<open>ceiling\<close>.\<close>

record ceiling_lock =
  ceiling :: int

text \<open>
  \<open>expected_exec_time\<close> and \<open>remaining_exec_time\<close> are stored into
  \<open>unsigned long\<close> locals whose start value \<open>ULONG_MAX\<close> the source calls
  "the maximum possible value": they are 64-bit unsigned words. \<open>age\<close>,
  \<open>lifespan\<close> and the priorities are only compared and copied.
\<close>

record process =
  status :: process_status
  age :: nat
  lifespan :: nat
  expected_exec_time :: "64 word"
  remaining_exec_time :: "64 word"
  priority :: int
  orig_priority :: int
  lock :: nat

record resource =
  owner :: "pid option"
  waitqueue :: "pid list"

record sim_state =
  current :: "pid option"
  procs :: "pid \<Rightarrow> process"
  readyqueue :: "pid list"
  runqueue :: "pid list"
  resources :: "resource list"
  locks :: "nat \<Rightarrow> ceiling_lock"

text \<open>
  What ends a call without a result: a failed \<open>assert\<close> (abort), a read through
  \<open>NULL\<close>, and \<open>resources + resource_id\<close> outside the table.
\<close>

datatype fault = Assertion_failed | Null_pointer | Bad_resource_index

definition ULONG_MAX :: "64 word" where
  "ULONG_MAX = 18446744073709551615"

definition valid_resource :: "int \<Rightarrow> sim_state \<Rightarrow> bool" where
  "valid_resource resource_id s = (0 \<le> resource_id \<and> nat resource_id < length (resources s))"

definition set_status :: "pid \<Rightarrow> process_status \<Rightarrow> sim_state \<Rightarrow> sim_state" where
  "set_status p st s = s\<lparr>procs := (procs s)(p := (procs s p)\<lparr>status := st\<rparr>)\<rparr>"

definition set_resource :: "int \<Rightarrow> resource \<Rightarrow> sim_state \<Rightarrow> sim_state" where
  "set_resource resource_id r s = s\<lparr>resources := (resources s)[nat resource_id := r]\<rparr>"

text \<open>
  The first entry of a list. On an empty list the C macro yields a pointer that is
  no process (pa2.c never reads through it); \<open>None\<close> stands for it.
\<close>

definition list_first_entry :: "pid list \<Rightarrow> pid option" where
  "list_first_entry q = (case q of [] \<Rightarrow> None | x # _ \<Rightarrow> Some x)"

section \<open>Default FCFS resource acquisition and release\<close>

text \<open>
  \<open>fcfs_acquire\<close>: an unowned resource is taken by \<open>current\<close> and the call returns
  true. Otherwise \<open>current->status\<close> becomes \<open>PROCESS_WAIT\<close>, \<open>current\<close> is linked at
  the tail of the resource's wait queue, and the call returns false.
\<close>

definition fcfs_acquire :: "int \<Rightarrow> sim_state \<Rightarrow> fault + (bool \<times> sim_state)" where
  "fcfs_acquire resource_id s =
     (if \<not> valid_resource resource_id s then Inl Bad_resource_index
      else let r = resources s ! nat resource_id in
        (case owner r of
           None \<Rightarrow> Inr (True, set_resource resource_id (r\<lparr>owner := current s\<rparr>) s)
         | Some _ \<Rightarrow>
             (case current s of
                None \<Rightarrow> Inl Null_pointer
              | Some c \<Rightarrow>
                  Inr (False,
                       set_resource resource_id (r\<lparr>waitqueue := waitqueue r @ [c]\<rparr>)
                         (set_status c PROCESS_WAIT s)))))"

text \<open>
  \<open>fcfs_release\<close>: \<open>assert(r->owner == current)\<close>, then \<open>r->owner = NULL\<close>; when the
  wait queue is not empty its first entry is asserted to be in \<open>PROCESS_WAIT\<close>,
  unlinked, set to \<open>PROCESS_READY\<close> and linked at the tail of \<open>readyqueue\<close>.
\<close>

definition fcfs_release :: "int \<Rightarrow> sim_state \<Rightarrow> fault + sim_state" where
  "fcfs_release resource_id s =
     (if \<not> valid_resource resource_id s then Inl Bad_resource_index
      else let r = resources s ! nat resource_id in
        if owner r \<noteq> current s then Inl Assertion_failed
        else
          (case waitqueue r of
             [] \<Rightarrow> Inr (set_resource resource_id (r\<lparr>owner := None\<rparr>) s)
           | waiter # rest \<Rightarrow>
               if status (procs s waiter) \<noteq> PROCESS_WAIT then Inl Assertion_failed
               else
                 let s1 = set_resource resource_id (r\<lparr>owner := None, waitqueue := rest\<rparr>) s;
                     s2 = set_status waiter PROCESS_READY s1
                 in Inr (s2\<lparr>readyqueue := readyqueue s2 @ [waiter]\<rparr>)))"

section \<open>FIFO policy\<close>

text \<open>
  The label \<open>pick_next\<close> of \<open>fifo_schedule\<close>: the first entry of \<open>readyqueue\<close> is
  unlinked and returned; with an empty queue \<open>next\<close> stays \<open>NULL\<close>.
\<close>

definition pick_next :: "sim_state \<Rightarrow> pid option \<times> sim_state" where
  "pick_next s =
     (case readyqueue s of
        [] \<Rightarrow> (None, s)
      | n # rest \<Rightarrow> (Some n, s\<lparr>readyqueue := rest\<rparr>))"

text \<open>
  \<open>fifo_schedule\<close>. The call of \<open>dump_status()\<close> only prints and is left out. The
  result is the process to run and the state after the call.
\<close>

definition fifo_schedule :: "sim_state \<Rightarrow> pid option \<times> sim_state" where
  "fifo_schedule s =
     (case current s of
        None \<Rightarrow> pick_next s
      | Some c \<Rightarrow>
          if status (procs s c) = PROCESS_WAIT then pick_next s
          else if age (procs s c) < lifespan (procs s c) then (Some c, s)
          else pick_next s)"

section \<open>SJF and SRTF policies\<close>

text \<open>
  The loop \<open>list_for_each_entry(curr, &runqueue, run_list)\<close> of \<open>sjf_schedule\<close> and
  \<open>srtf_schedule\<close>, which differ only in the member they compare (\<open>key\<close>): the
  running minimum and the pointer \<open>shortest\<close> are replaced when the entry's time is
  strictly below the minimum.
\<close>

fun scan_shortest :: "(pid \<Rightarrow> 64 word) \<Rightarrow> pid list \<Rightarrow> 64 word \<Rightarrow> pid option \<Rightarrow> pid option" where
  "scan_shortest key [] min_time shortest = shortest"
| "scan_shortest key (cur # rest) min_time shortest =
     (if key cur < min_time
      then scan_shortest key rest (key cur) (Some cur)
      else scan_shortest key rest min_time shortest)"

text \<open>Neither function writes to the queue or to a process.\<close>

definition sjf_schedule :: "sim_state \<Rightarrow> pid option \<times> sim_state" where
  "sjf_schedule s =
     (scan_shortest (\<lambda>p. expected_exec_time (procs s p)) (runqueue s) ULONG_MAX None, s)"

definition srtf_schedule :: "sim_state \<Rightarrow> pid option \<times> sim_state" where
  "srtf_schedule s =
     (scan_shortest (\<lambda>p. remaining_exec_time (procs s p)) (runqueue s) ULONG_MAX None, s)"

section \<open>Round-robin policy\<close>

text \<open>
  \<open>rr_schedule\<close>: \<open>NULL\<close> on an empty \<open>runqueue\<close>; otherwise the first entry is
  unlinked and linked again at the tail, and the entry that is first afterwards is
  returned.
\<close>

definition rr_schedule :: "sim_state \<Rightarrow> pid option \<times> sim_state" where
  "rr_schedule s =
     (case runqueue s of
        [] \<Rightarrow> (None, s)
      | head # rest \<Rightarrow>
          let s1 = s\<lparr>runqueue := rest @ [head]\<rparr>
          in (list_first_entry (runqueue s1), s1))"

text \<open>
  The selections of \<open>n\<close> consecutive calls of \<open>rr_schedule\<close>, one per tick, with
  nothing else touching the queue in between (every process stays ready).
\<close>

fun rr_ticks :: "nat \<Rightarrow> sim_state \<Rightarrow> pid option list" where
  "rr_ticks 0 s = []"
| "rr_ticks (Suc n) s = (case rr_schedule s of (sel, s') \<Rightarrow> sel # rr_ticks n s')"

section \<open>Priority policy with the priority ceiling protocol\<close>

text \<open>
  The loop of \<open>pcp_schedule\<close> (the same text as the priority policy's): the entry
  replaces \<open>highest_prio\<close> when that is still \<open>NULL\<close> or when the entry's
  \<open>priority\<close> is strictly smaller.
\<close>

fun scan_priority :: "(pid \<Rightarrow> process) \<Rightarrow> pid list \<Rightarrow> pid option \<Rightarrow> pid option" where
  "scan_priority ps [] highest_prio = highest_prio"
| "scan_priority ps (cur # rest) highest_prio =
     (case highest_prio of
        None \<Rightarrow> scan_priority ps rest (Some cur)
      | Some h \<Rightarrow>
          if priority (ps cur) < priority (ps h)
          then scan_priority ps rest (Some cur)
          else scan_priority ps rest highest_prio)"

definition pcp_schedule :: "sim_state \<Rightarrow> pid option \<times> sim_state" where
  "pcp_schedule s = (scan_priority (procs s) (runqueue s) None, s)"

text \<open>
  \<open>pcp_acquire\<close> and \<open>pcp_release\<close> call \<open>acquire_lock\<close> and \<open>release_lock\<close>, which
  pa2.c does not define: they are parameters here, given the lock pointer and the
  whole state. \<open>acquire_lock\<close> returns its code and the state it leaves.
  \<open>pcp_acquire\<close> returns -1 when that code is not 0; otherwise it overwrites
  \<open>p->priority\<close> with \<open>p->lock->ceiling\<close> if \<open>p->priority < p->lock->ceiling\<close>, and
  returns 0. \<open>pcp_release\<close> copies \<open>p->orig_priority\<close> into \<open>p->priority\<close>.
\<close>

definition pcp_acquire ::
  "(nat \<Rightarrow> sim_state \<Rightarrow> int \<times> sim_state) \<Rightarrow> pid \<Rightarrow> sim_state \<Rightarrow> int \<times> sim_state" where
  "pcp_acquire acquire_lock p s =
     (case acquire_lock (lock (procs s p)) s of
        (rc, s1) \<Rightarrow>
          if rc \<noteq> 0 then (- 1, s1)
          else
            let pr = procs s1 p; c = ceiling (locks s1 (lock pr))
            in if priority pr < c
               then (0, s1\<lparr>procs := (procs s1)(p := pr\<lparr>priority := c\<rparr>)\<rparr>)
               else (0, s1))"

definition pcp_release ::
  "(nat \<Rightarrow> sim_state \<Rightarrow> sim_state) \<Rightarrow> pid \<Rightarrow> sim_state \<Rightarrow> int \<times> sim_state" where
  "pcp_release release_lock p s =
     (let s1 = release_lock (lock (procs s p)) s; pr = procs s1 p
      in (0, s1\<lparr>procs := (procs s1)(p := pr\<lparr>priority := orig_priority pr\<rparr>)\<rparr>))"

section \<open>Scheduler descriptors\<close>

text \<open>
  A \<open>struct scheduler\<close> holds a name and function pointers. A pointer is the tag of
  the function it is initialised with; a member that the initialiser does not
  mention is \<open>NULL\<close>.
\<close>

datatype acquire_fn = Fcfs_acquire | Pcp_acquire
datatype release_fn = Fcfs_release | Pcp_release
datatype initialize_fn = Fifo_initialize
datatype finalize_fn = Fifo_finalize
datatype schedule_fn = Fifo_schedule | Sjf_schedule | Pcp_schedule

record scheduler =
  name :: string
  acquire :: "acquire_fn option"
  release :: "release_fn option"
  initialize :: "initialize_fn option"
  finalize :: "finalize_fn option"
  schedule :: "schedule_fn option"

definition fifo_scheduler :: scheduler where
  "fifo_scheduler = \<lparr>name = ''FIFO'', acquire = Some Fcfs_acquire, release = Some Fcfs_release,
     initialize = Some Fifo_initialize, finalize = Some Fifo_finalize,
     schedule = Some Fifo_schedule\<rparr>"

definition sjf_scheduler :: scheduler where
  "sjf_scheduler = \<lparr>name = ''Shortest-Job First'', acquire = Some Fcfs_acquire,
     release = Some Fcfs_release, initialize = None, finalize = None,
     schedule = Some Sjf_schedule\<rparr>"

definition srtf_scheduler :: scheduler where
  "srtf_scheduler = \<lparr>name = ''Shortest Remaining Time First'', acquire = Some Fcfs_acquire,
     release = Some Fcfs_release, initialize = None, finalize = None, schedule = None\<rparr>"

definition rr_scheduler :: scheduler where
  "rr_scheduler = \<lparr>name = ''Round-Robin'', acquire = Some Fcfs_acquire,
     release = Some Fcfs_release, initialize = None, finalize = None, schedule = None\<rparr>"

definition pcp_scheduler :: scheduler where
  "pcp_scheduler = \<lparr>name = ''Priority + Priority Ceiling Protocol'',
     acquire = Some Pcp_acquire, release = Some Pcp_release, initialize = None,
     finalize = None, schedule = Some Pcp_schedule\<rparr>"

definition pip_scheduler :: scheduler where
  "pip_scheduler = \<lparr>name = ''Priority + Priority Inheritance Protocol'', acquire = None,
     release = None, initialize = None, finalize = None, schedule = None\<rparr>"

section \<open>Queue membership\<close>

text \<open>Every queue entry of the state: the two run lists, then each wait queue.\<close>

definition all_queues :: "sim_state \<Rightarrow> pid list" where
  "all_queues s = readyqueue s @ runqueue s @ concat (map waitqueue (resources s))"

text \<open>
  The node \<open>current->list\<close> is linked on no list: \<open>current\<close> is neither on
  \<open>readyqueue\<close> nor on a wait queue. This is the state in which the framework calls
  \<open>acquire\<close> (\<open>fifo_schedule\<close> unlinks what it hands out), and the one in which
  \<open>list_add_tail(&current->list, ...)\<close> leaves every other list as it was.
\<close>

definition current_unlinked :: "sim_state \<Rightarrow> bool" where
  "current_unlinked s =
     (case current s of
        None \<Rightarrow> True
      | Some c \<Rightarrow> c \<notin> set (readyqueue s) \<and> c \<notin> set (concat (map waitqueue (resources s))))"

section \<open>Example states\<close>

definition proc0 :: process where
  "proc0 = \<lparr>status = PROCESS_READY, age = 0, lifespan = 4, expected_exec_time = 4,
            remaining_exec_time = 4, priority = 0, orig_priority = 0, lock = 0\<rparr>"

text \<open>Process 2 runs; resource 0 is owned by process 1 and process 3 already waits for it.\<close>

definition st_owned :: sim_state where
  "st_owned = \<lparr>current = Some 2,
               procs = (\<lambda>_. proc0)(2 := proc0\<lparr>status := PROCESS_RUNNING\<rparr>,
                                   3 := proc0\<lparr>status := PROCESS_WAIT\<rparr>),
               readyqueue = [4],
               runqueue = [],
               resources = [\<lparr>owner = Some 1, waitqueue = [3]\<rparr>, \<lparr>owner = None, waitqueue = []\<rparr>],
               locks = (\<lambda>_. \<lparr>ceiling = 0\<rparr>)\<rparr>"

text \<open>Process 1 runs and owns resource 0, for which processes 3 and 2 wait.\<close>

definition st_release :: sim_state where
  "st_release = \<lparr>current = Some 1,
               procs = (\<lambda>_. proc0)(1 := proc0\<lparr>status := PROCESS_RUNNING\<rparr>,
                                   2 := proc0\<lparr>status := PROCESS_WAIT\<rparr>,
                                   3 := proc0\<lparr>status := PROCESS_WAIT\<rparr>),
               readyqueue = [4],
               runqueue = [],
               resources = [\<lparr>owner = Some 1, waitqueue = [3, 2]\<rparr>, \<lparr>owner = None, waitqueue = []\<rparr>],
               locks = (\<lambda>_. \<lparr>ceiling = 0\<rparr>)\<rparr>"

text \<open>Nothing runs; processes 1, 2 and 3 are runnable, with times 7, 3 and 3.\<close>

definition st_three :: sim_state where
  "st_three = \<lparr>current = None,
               procs = (\<lambda>_. proc0)(1 := proc0\<lparr>expected_exec_time := 7, remaining_exec_time := 7\<rparr>,
                                   2 := proc0\<lparr>expected_exec_time := 3, remaining_exec_time := 3\<rparr>,
                                   3 := proc0\<lparr>expected_exec_time := 3, remaining_exec_time := 3\<rparr>),
               readyqueue = [1, 2, 3],
               runqueue = [1, 2, 3],
               resources = [\<lparr>owner = None, waitqueue = []\<rparr>],
               locks = (\<lambda>_. \<lparr>ceiling = 0\<rparr>)\<rparr>"

text \<open>The only runnable process has the largest time an \<open>unsigned long\<close> holds.\<close>

definition st_longest :: sim_state where
  "st_longest = \<lparr>current = None,
               procs = (\<lambda>_. proc0)(1 := proc0\<lparr>expected_exec_time := ULONG_MAX,
                                                remaining_exec_time := ULONG_MAX\<rparr>),
               readyqueue = [1],
               runqueue = [1],
               resources = [\<lparr>owner = None, waitqueue = []\<rparr>],
               locks = (\<lambda>_. \<lparr>ceiling = 0\<rparr>)\<rparr>"

text \<open>
  Stand-ins for \<open>acquire_lock\<close> and \<open>release_lock\<close>: the lock is always free, and
  neither call writes to the state.
\<close>

definition lock_free :: "nat \<Rightarrow> sim_state \<Rightarrow> int \<times> sim_state" where
  "lock_free l s = (0, s)"

definition unlock_free :: "nat \<Rightarrow> sim_state \<Rightarrow> sim_state" where
  "unlock_free l s = s"

text \<open>Process 1 has priority 5 (also its original one); its lock has ceiling 2.\<close>

definition st_pcp :: sim_state where
  "st_pcp = \<lparr>current = Some 1,
             procs = (\<lambda>_. proc0)(1 := proc0\<lparr>status := PROCESS_RUNNING, priority := 5,
                                              orig_priority := 5, lock := 0\<rparr>),
             readyqueue = [],
             runqueue = [],
             resources = [\<lparr>owner = None, waitqueue = []\<rparr>],
             locks = (\<lambda>_. \<lparr>ceiling = 2\<rparr>)\<rparr>"

text \<open>Process 1 has priority 1 and original priority 0; its lock has ceiling 2.\<close>

definition st_pcp_low :: sim_state where
  "st_pcp_low = \<lparr>current = Some 1,
             procs = (\<lambda>_. proc0)(1 := proc0\<lparr>status := PROCESS_RUNNING, priority := 1,
                                              orig_priority := 0, lock := 0\<rparr>),
             readyqueue = [],
             runqueue = [],
             resources = [\<lparr>owner = None, waitqueue = []\<rparr>],
             locks = (\<lambda>_. \<lparr>ceiling = 2\<rparr>)\<rparr>"

text \<open>
  Process 1 (priority 8) owns resource 0; process 3 (priority 4) waits for it; the
  running process 2 (priority 1) is about to ask for it.
\<close>

definition st_pip :: sim_state where
  "st_pip = \<lparr>current = Some 2,
             procs = (\<lambda>_. proc0)(1 := proc0\<lparr>priority := 8, orig_priority := 8\<rparr>,
                                 2 := proc0\<lparr>status := PROCESS_RUNNING, priority := 1,
                                            orig_priority := 1\<rparr>,
                                 3 := proc0\<lparr>status := PROCESS_WAIT, priority := 4,
                                            orig_priority := 4\<rparr>),
             readyqueue = [1],
             runqueue = [1],
             resources = [\<lparr>owner = Some 1, waitqueue = [3]\<rparr>],
             locks = (\<lambda>_. \<lparr>ceiling = 0\<rparr>)\<rparr>"

section \<open>Field updates\<close>

lemma set_simps [simp]:
  "resources (set_resource i r s) = (resources s)[nat i := r]"
  "procs (set_resource i r s) = procs s"
  "readyqueue (set_resource i r s) = readyqueue s"
  "runqueue (set_resource i r s) = runqueue s"
  "current (set_resource i r s) = current s"
  "resources (set_status p st s) = resources s"
  "procs (set_status p st s) = (procs s)(p := (procs s p)\<lparr>status := st\<rparr>)"
  "readyqueue (set_status p st s) = readyqueue s"
  "runqueue (set_status p st s) = runqueue s"
  "current (set_status p st s) = current s"
  by (simp_all add: set_resource_def set_status_def)

section \<open>FCFS acquire\<close>

text \<open>
  C2. For a resource of the table: when it has no owner, \<open>fcfs_acquire\<close> returns true
  (granted) and its owner is the requester \<open>current\<close>; when it is owned, the call
  returns false (blocked), the requester's status is \<open>PROCESS_WAIT\<close> and the wait
  queue of the resource is the old one with the requester appended at its tail.
\<close>

theorem fcfs_acquire_grant_or_block:
  assumes "valid_resource resource_id s"
  shows "(owner (resources s ! nat resource_id) = None \<longrightarrow>
           (\<exists>s'. fcfs_acquire resource_id s = Inr (True, s') \<and>
                 owner (resources s' ! nat resource_id) = current s)) \<and>
         (owner (resources s ! nat resource_id) \<noteq> None \<longrightarrow> current s = Some c \<longrightarrow>
           (\<exists>s'. fcfs_acquire resource_id s = Inr (False, s') \<and>
                 status (procs s' c) = PROCESS_WAIT \<and>
                 waitqueue (resources s' ! nat resource_id) =
                   waitqueue (resources s ! nat resource_id) @ [c]))"
  using assms
  by (auto simp: fcfs_acquire_def valid_resource_def Let_def)

theorem fcfs_acquire_grant_or_block_witness:
  "valid_resource 0 st_owned \<and> valid_resource 1 st_owned \<and>
   (\<exists>s'. fcfs_acquire 1 st_owned = Inr (True, s') \<and> owner (resources s' ! nat 1) = Some 2) \<and>
   (\<exists>s'. fcfs_acquire 0 st_owned = Inr (False, s') \<and>
         status (procs s' 2) = PROCESS_WAIT \<and> waitqueue (resources s' ! nat 0) = [3, 2])"
proof -
  have v0: "valid_resource 0 st_owned" and v1: "valid_resource 1 st_owned"
    by (simp_all add: valid_resource_def st_owned_def)
  from fcfs_acquire_grant_or_block [OF v1, of 2] fcfs_acquire_grant_or_block [OF v0, of 2]
  show ?thesis using v0 v1 by (simp add: st_owned_def)
qed

text \<open>
  C10. A call of \<open>fcfs_acquire\<close> that returns false, made while \<open>current\<close> is linked on
  no list, writes two things only: the status of the requester, which becomes
  \<open>PROCESS_WAIT\<close>, and the wait queue of the requested resource, which gains the
  requester at its tail. Every other member of the state is what it was; in
  particular the \<open>owner\<close> of the requested resource, and of every resource, is
  unchanged.
\<close>

theorem fcfs_acquire_blocked_keeps_owner:
  assumes "fcfs_acquire resource_id s = Inr (False, s')"
    and "current_unlinked s"
  shows "\<exists>c. current s = Some c \<and>
           s' = s\<lparr>procs := (procs s)(c := (procs s c)\<lparr>status := PROCESS_WAIT\<rparr>),
                  resources := (resources s)[nat resource_id :=
                    (resources s ! nat resource_id)
                      \<lparr>waitqueue := waitqueue (resources s ! nat resource_id) @ [c]\<rparr>]\<rparr> \<and>
           owner (resources s' ! nat resource_id) = owner (resources s ! nat resource_id) \<and>
           map owner (resources s') = map owner (resources s)"
proof -
  from assms(1) have v: "valid_resource resource_id s"
    by (auto simp: fcfs_acquire_def split: if_splits)
  from assms(1) v obtain c where c: "current s = Some c"
    and s': "s' = set_resource resource_id
                   ((resources s ! nat resource_id)
                      \<lparr>waitqueue := waitqueue (resources s ! nat resource_id) @ [c]\<rparr>)
                   (set_status c PROCESS_WAIT s)"
    by (auto simp: fcfs_acquire_def Let_def split: option.splits)
  have frame: "s' = s\<lparr>procs := (procs s)(c := (procs s c)\<lparr>status := PROCESS_WAIT\<rparr>),
                  resources := (resources s)[nat resource_id :=
                    (resources s ! nat resource_id)
                      \<lparr>waitqueue := waitqueue (resources s ! nat resource_id) @ [c]\<rparr>]\<rparr>"
    unfolding s' by (simp add: set_resource_def set_status_def)
  have own: "owner (resources s' ! nat resource_id) = owner (resources s ! nat resource_id)"
    using v by (simp add: s' valid_resource_def)
  have "map owner (resources s') = map owner (resources s)"
    using v by (simp add: s' valid_resource_def map_update list_update_same_conv)
  with c frame own show ?thesis by blast
qed

theorem fcfs_acquire_blocked_keeps_owner_witness:
  "current_unlinked st_owned \<and>
   fcfs_acquire 0 st_owned =
     Inr (False, set_resource 0 \<lparr>owner = Some 1, waitqueue = [3, 2]\<rparr>
                   (set_status 2 PROCESS_WAIT st_owned)) \<and>
   set_resource 0 \<lparr>owner = Some 1, waitqueue = [3, 2]\<rparr> (set_status 2 PROCESS_WAIT st_owned) =
     st_owned\<lparr>procs := (procs st_owned)(2 := (procs st_owned 2)\<lparr>status := PROCESS_WAIT\<rparr>),
              resources := [\<lparr>owner = Some 1, waitqueue = [3, 2]\<rparr>,
                            \<lparr>owner = None, waitqueue = []\<rparr>]\<rparr> \<and>
   map owner (resources (set_resource 0 \<lparr>owner = Some 1, waitqueue = [3, 2]\<rparr>
                   (set_status 2 PROCESS_WAIT st_owned))) = [Some 1, None] \<and>
   map owner (resources st_owned) = [Some 1, None]"
proof -
  have u: "current_unlinked st_owned"
    by (simp add: current_unlinked_def st_owned_def)
  have e: "fcfs_acquire 0 st_owned =
     Inr (False, set_resource 0 \<lparr>owner = Some 1, waitqueue = [3, 2]\<rparr>
                   (set_status 2 PROCESS_WAIT st_owned))"
    by (simp add: fcfs_acquire_def valid_resource_def st_owned_def)
  have c: "current st_owned = Some 2" and r: "resources st_owned =
      [\<lparr>owner = Some 1, waitqueue = [3]\<rparr>, \<lparr>owner = None, waitqueue = []\<rparr>]"
    by (simp_all add: st_owned_def)
  from fcfs_acquire_blocked_keeps_owner [OF e u] u e c r
  show ?thesis by simp
qed

section \<open>FCFS release\<close>

text \<open>
  C3. For a resource of the table: a call of \<open>fcfs_release\<close> whose caller \<open>current\<close> is
  not the owner fails its first assertion and aborts. Otherwise the resource has no
  owner afterwards; with an empty wait queue nothing else changes; with a waiting
  head (in \<open>PROCESS_WAIT\<close>, as \<open>fcfs_acquire\<close> left it) the head is taken off the wait
  queue, its status is \<open>PROCESS_READY\<close>, it is the new tail of \<open>readyqueue\<close>, and the
  resource is still unowned: the woken process does not receive it.
\<close>

theorem fcfs_release_wakes_head:
  assumes "valid_resource resource_id s"
  shows "(owner (resources s ! nat resource_id) \<noteq> current s \<longrightarrow>
            fcfs_release resource_id s = Inl Assertion_failed) \<and>
         (owner (resources s ! nat resource_id) = current s \<longrightarrow>
            waitqueue (resources s ! nat resource_id) = [] \<longrightarrow>
            (\<exists>s'. fcfs_release resource_id s = Inr s' \<and>
                  owner (resources s' ! nat resource_id) = None \<and>
                  waitqueue (resources s' ! nat resource_id) = [] \<and>
                  readyqueue s' = readyqueue s \<and> procs s' = procs s)) \<and>
         (owner (resources s ! nat resource_id) = current s \<longrightarrow>
            waitqueue (resources s ! nat resource_id) = waiter # rest \<longrightarrow>
            status (procs s waiter) = PROCESS_WAIT \<longrightarrow>
            (\<exists>s'. fcfs_release resource_id s = Inr s' \<and>
                  owner (resources s' ! nat resource_id) = None \<and>
                  waitqueue (resources s' ! nat resource_id) = rest \<and>
                  status (procs s' waiter) = PROCESS_READY \<and>
                  readyqueue s' = readyqueue s @ [waiter]))"
  using assms
  by (auto simp: fcfs_release_def valid_resource_def Let_def)

theorem fcfs_release_wakes_head_witness:
  "valid_resource 0 st_release \<and> valid_resource 0 st_owned \<and>
   fcfs_release 0 st_owned = Inl Assertion_failed \<and>
   (\<exists>s'. fcfs_release 0 st_release = Inr s' \<and>
         owner (resources s' ! nat 0) = None \<and>
         waitqueue (resources s' ! nat 0) = [2] \<and>
         status (procs s' 3) = PROCESS_READY \<and>
         readyqueue s' = [4, 3])"
proof -
  have v: "valid_resource 0 st_release" and v': "valid_resource 0 st_owned"
    by (simp_all add: valid_resource_def st_release_def st_owned_def)
  from fcfs_release_wakes_head [OF v, of 3 "[2]"] fcfs_release_wakes_head [OF v', of 3 "[]"]
  show ?thesis using v v' by (simp add: st_release_def st_owned_def)
qed

text \<open>
  The second assertion of \<open>fcfs_release\<close>: a first waiter that is not in
  \<open>PROCESS_WAIT\<close> aborts the call.
\<close>

lemma fcfs_release_asserts_waiting:
  assumes "valid_resource resource_id s"
    and "owner (resources s ! nat resource_id) = current s"
    and "waitqueue (resources s ! nat resource_id) = waiter # rest"
    and "status (procs s waiter) \<noteq> PROCESS_WAIT"
  shows "fcfs_release resource_id s = Inl Assertion_failed"
  using assms by (simp add: fcfs_release_def Let_def)

section \<open>FIFO\<close>

text \<open>
  C5. \<open>fifo_schedule\<close> does not preempt: a current process that is not in
  \<open>PROCESS_WAIT\<close> and whose \<open>age\<close> is below its \<open>lifespan\<close> is returned again, and the
  state is untouched. In every other case the head of \<open>readyqueue\<close> is removed and
  returned, and with an empty \<open>readyqueue\<close> the result is \<open>NULL\<close> (idle).
\<close>

theorem fifo_schedule_keeps_or_picks:
  "(current s = Some c \<and> status (procs s c) \<noteq> PROCESS_WAIT \<and>
      age (procs s c) < lifespan (procs s c) \<longrightarrow> fifo_schedule s = (Some c, s)) \<and>
   ((current s = None \<or> current s = Some c \<and> (status (procs s c) = PROCESS_WAIT \<or>
        \<not> age (procs s c) < lifespan (procs s c))) \<longrightarrow>
      (readyqueue s = [] \<longrightarrow> fifo_schedule s = (None, s)) \<and>
      (readyqueue s = n # rest \<longrightarrow> fifo_schedule s = (Some n, s\<lparr>readyqueue := rest\<rparr>)))"
  by (auto simp: fifo_schedule_def pick_next_def)

theorem fifo_schedule_keeps_or_picks_witness:
  "fifo_schedule st_owned = (Some 2, st_owned) \<and>
   fifo_schedule (set_status 2 PROCESS_WAIT st_owned)
     = (Some 4, (set_status 2 PROCESS_WAIT st_owned)\<lparr>readyqueue := []\<rparr>) \<and>
   fifo_schedule (st_pcp\<lparr>current := None\<rparr>) = (None, st_pcp\<lparr>current := None\<rparr>)"
  using fifo_schedule_keeps_or_picks [of st_owned 2]
    fifo_schedule_keeps_or_picks [of "set_status 2 PROCESS_WAIT st_owned" 2 4 "[]"]
    fifo_schedule_keeps_or_picks [of "st_pcp\<lparr>current := None\<rparr>"]
  by (simp add: st_owned_def st_pcp_def proc0_def set_status_def)

text \<open>
  What \<open>fifo_schedule\<close> returns is linked on no queue afterwards, and no process is
  linked twice, provided that held before and the running process was detached.
\<close>

lemma pick_next_detaches:
  assumes "distinct (all_queues s)" and "pick_next s = (Some p, s')"
  shows "p \<notin> set (all_queues s') \<and> distinct (all_queues s')"
proof (cases "readyqueue s")
  case Nil
  with assms(2) show ?thesis by (simp add: pick_next_def)
next
  case (Cons n rest)
  with assms(2) have "p = n" and "s' = s\<lparr>readyqueue := rest\<rparr>"
    by (simp_all add: pick_next_def)
  with Cons have "all_queues s = p # all_queues s'"
    by (simp add: all_queues_def)
  with assms(1) show ?thesis by simp
qed

lemma fifo_schedule_detaches:
  assumes "distinct (all_queues s)"
    and "\<And>c. current s = Some c \<Longrightarrow> status (procs s c) \<noteq> PROCESS_WAIT \<Longrightarrow> c \<notin> set (all_queues s)"
    and "fifo_schedule s = (Some p, s')"
  shows "p \<notin> set (all_queues s') \<and> distinct (all_queues s')"
proof (cases "pick_next s = (Some p, s')")
  case True
  with assms(1) show ?thesis by (rule pick_next_detaches)
next
  case False
  with assms(3) have "current s = Some p" and "status (procs s p) \<noteq> PROCESS_WAIT" and "s' = s"
    by (auto simp: fifo_schedule_def split: option.splits if_splits)
  with assms(1,2) show ?thesis by simp
qed

section \<open>SJF and SRTF\<close>

text \<open>
  The scan returns the pointer it started with when no entry is strictly below the
  starting minimum; otherwise it returns the first entry of minimal time.
\<close>

lemma scan_shortest_none_below:
  "\<forall>p \<in> set q. \<not> key p < m \<Longrightarrow> scan_shortest key q m sh = sh"
  by (induction q arbitrary: m sh) auto

lemma scan_shortest_first_minimum:
  "\<exists>p \<in> set q. key p < m \<Longrightarrow>
   \<exists>xs p ys. q = xs @ p # ys \<and> scan_shortest key q m sh = Some p \<and> key p < m \<and>
     (\<forall>x \<in> set xs. key p < key x) \<and> (\<forall>y \<in> set ys. key p \<le> key y)"
proof (induction q arbitrary: m sh)
  case Nil
  then show ?case by simp
next
  case (Cons cur rest)
  show ?case
  proof (cases "key cur < m")
    case below: True
    show ?thesis
    proof (cases "\<exists>p \<in> set rest. key p < key cur")
      case True
      from Cons.IH [OF True, of "Some cur"]
      obtain xs p ys where r: "rest = xs @ p # ys"
        and res: "scan_shortest key rest (key cur) (Some cur) = Some p"
        and lt: "key p < key cur"
        and before: "\<forall>x \<in> set xs. key p < key x"
        and after: "\<forall>y \<in> set ys. key p \<le> key y"
        by blast
      have "cur # rest = (cur # xs) @ p # ys" using r by simp
      moreover have "scan_shortest key (cur # rest) m sh = Some p" using below res by simp
      moreover have "key p < m" using lt below by simp
      moreover have "\<forall>x \<in> set (cur # xs). key p < key x" using lt before by simp
      ultimately show ?thesis using after by blast
    next
      case False
      then have none: "\<forall>p \<in> set rest. \<not> key p < key cur" by blast
      have "scan_shortest key (cur # rest) m sh = Some cur"
        using below scan_shortest_none_below [OF none] by simp
      moreover have "cur # rest = [] @ cur # rest" by simp
      moreover have "\<forall>y \<in> set rest. key cur \<le> key y" using none by auto
      ultimately show ?thesis using below by (metis empty_iff empty_set)
    qed
  next
    case not_below: False
    with Cons.prems have ex: "\<exists>p \<in> set rest. key p < m" by auto
    from Cons.IH [OF ex, of sh]
    obtain xs p ys where r: "rest = xs @ p # ys"
      and res: "scan_shortest key rest m sh = Some p"
      and lt: "key p < m"
      and before: "\<forall>x \<in> set xs. key p < key x"
      and after: "\<forall>y \<in> set ys. key p \<le> key y"
      by blast
    have "cur # rest = (cur # xs) @ p # ys" using r by simp
    moreover have "scan_shortest key (cur # rest) m sh = Some p" using not_below res by simp
    moreover have "\<forall>x \<in> set (cur # xs). key p < key x" using lt before not_below by auto
    ultimately show ?thesis using lt after by blast
  qed
qed

lemma ulong_max_minus_one: "ULONG_MAX = - 1"
  by (simp add: ULONG_MAX_def)

lemma ulong_max_top: "x \<le> ULONG_MAX"
  by (simp add: ulong_max_minus_one)

lemma below_ulong_max: "x \<noteq> ULONG_MAX \<Longrightarrow> x < ULONG_MAX"
  using ulong_max_top [of x] by simp

lemma sjf_schedule_first_minimum:
  assumes "\<exists>p \<in> set (runqueue s). expected_exec_time (procs s p) \<noteq> ULONG_MAX"
  shows "\<exists>xs p ys. runqueue s = xs @ p # ys \<and> sjf_schedule s = (Some p, s) \<and>
     (\<forall>x \<in> set xs. expected_exec_time (procs s p) < expected_exec_time (procs s x)) \<and>
     (\<forall>y \<in> set ys. expected_exec_time (procs s p) \<le> expected_exec_time (procs s y))"
proof -
  from assms have "\<exists>p \<in> set (runqueue s). expected_exec_time (procs s p) < ULONG_MAX"
    using below_ulong_max by blast
  from scan_shortest_first_minimum [OF this, of None]
  show ?thesis by (auto simp: sjf_schedule_def)
qed

lemma srtf_schedule_first_minimum:
  assumes "\<exists>p \<in> set (runqueue s). remaining_exec_time (procs s p) \<noteq> ULONG_MAX"
  shows "\<exists>xs p ys. runqueue s = xs @ p # ys \<and> srtf_schedule s = (Some p, s) \<and>
     (\<forall>x \<in> set xs. remaining_exec_time (procs s p) < remaining_exec_time (procs s x)) \<and>
     (\<forall>y \<in> set ys. remaining_exec_time (procs s p) \<le> remaining_exec_time (procs s y))"
proof -
  from assms have "\<exists>p \<in> set (runqueue s). remaining_exec_time (procs s p) < ULONG_MAX"
    using below_ulong_max by blast
  from scan_shortest_first_minimum [OF this, of None]
  show ?thesis by (auto simp: srtf_schedule_def)
qed

lemma sjf_schedule_idle: "runqueue s = [] \<Longrightarrow> sjf_schedule s = (None, s)"
  by (simp add: sjf_schedule_def)

lemma srtf_schedule_idle: "runqueue s = [] \<Longrightarrow> srtf_schedule s = (None, s)"
  by (simp add: srtf_schedule_def)

text \<open>
  The loop of the priority policies starts from \<open>NULL\<close> and takes the first entry
  whatever its priority, so a non-empty queue always yields a process.
\<close>

lemma scan_priority_some: "scan_priority ps q (Some h) \<noteq> None"
  by (induction q arbitrary: h) auto

lemma pcp_schedule_nonempty: "runqueue s \<noteq> [] \<Longrightarrow> fst (pcp_schedule s) \<noteq> None"
  by (cases "runqueue s") (auto simp: pcp_schedule_def scan_priority_some)

text \<open>
  C4. \<open>sjf_schedule\<close> never unlinks what it selects: with processes 1, 2, 3 of times
  7, 3, 3 queued it returns process 2, and the queues are what they were before the
  call, so the process handed to the CPU is still queued.
\<close>

theorem sjf_selected_stays_queued:
  "fst (sjf_schedule st_three) = Some 2 \<and>
   runqueue (snd (sjf_schedule st_three)) = [1, 2, 3] \<and>
   readyqueue (snd (sjf_schedule st_three)) = [1, 2, 3] \<and>
   2 \<in> set (all_queues (snd (sjf_schedule st_three)))"
  by (simp add: sjf_schedule_def all_queues_def st_three_def ULONG_MAX_def proc0_def)

text \<open>
  C6. A run queue whose only process has \<open>expected_exec_time = ULONG_MAX\<close> is not
  empty, yet \<open>sjf_schedule\<close> returns \<open>NULL\<close>: the strict comparison against the
  starting minimum \<open>ULONG_MAX\<close> never holds for it.
\<close>

theorem sjf_schedule_skips_longest:
  "runqueue st_longest = [1] \<and>
   expected_exec_time (procs st_longest 1) = ULONG_MAX \<and>
   sjf_schedule st_longest = (None, st_longest)"
  by (simp add: sjf_schedule_def st_longest_def)

text \<open>
  C7. The same for \<open>srtf_schedule\<close> and \<open>remaining_exec_time\<close>; moreover the SRTF
  descriptor leaves its \<open>schedule\<close> member unset, so \<open>srtf_schedule\<close> is not what the
  SRTF policy calls.
\<close>

theorem srtf_schedule_skips_longest:
  "runqueue st_longest = [1] \<and>
   remaining_exec_time (procs st_longest 1) = ULONG_MAX \<and>
   srtf_schedule st_longest = (None, st_longest) \<and>
   schedule srtf_scheduler = None"
  by (simp add: srtf_schedule_def st_longest_def srtf_scheduler_def)

section \<open>Round-robin\<close>

lemma rr_ticks_three_cycle:
  "runqueue s = [p1, p2, p3] \<Longrightarrow>
   rr_ticks (3 * n) s = concat (replicate n [Some p2, Some p3, Some p1])"
proof (induction n arbitrary: s)
  case 0
  then show ?case by simp
next
  case (Suc n)
  have three: "3 * Suc n = Suc (Suc (Suc (3 * n)))" by simp
  let ?s3 = "s\<lparr>runqueue := [p1, p2, p3]\<rparr>"
  have step: "rr_ticks (3 * Suc n) s = Some p2 # Some p3 # Some p1 # rr_ticks (3 * n) ?s3"
    unfolding three using Suc.prems
    by (simp add: rr_schedule_def list_first_entry_def)
  have "runqueue ?s3 = [p1, p2, p3]" by simp
  from Suc.IH [OF this] step show ?case by simp
qed

text \<open>
  C8, as the code has it. \<open>rr_schedule\<close> returns \<open>NULL\<close> on an empty run queue and
  leaves the state alone; otherwise the old head becomes the tail and the new head
  is returned. With the run queue \<open>[p1, p2, p3]\<close> and one call per tick the
  selections are \<open>p2, p3, p1, p2, p3, p1, ...\<close>: the first round starts at the second
  process.
\<close>

theorem rr_schedule_rotates:
  "(runqueue s = [] \<longrightarrow> rr_schedule s = (None, s)) \<and>
   (runqueue s = head # rest \<longrightarrow>
      fst (rr_schedule s) = Some (hd (rest @ [head])) \<and>
      runqueue (snd (rr_schedule s)) = rest @ [head]) \<and>
   (runqueue s = [p1, p2, p3] \<longrightarrow>
      rr_ticks (3 * n) s = concat (replicate n [Some p2, Some p3, Some p1]))"
proof -
  have "runqueue s = head # rest \<Longrightarrow> fst (rr_schedule s) = Some (hd (rest @ [head]))"
    by (cases rest) (simp_all add: rr_schedule_def list_first_entry_def)
  moreover have "runqueue s = head # rest \<Longrightarrow> runqueue (snd (rr_schedule s)) = rest @ [head]"
    by (simp add: rr_schedule_def)
  moreover have "runqueue s = [] \<Longrightarrow> rr_schedule s = (None, s)"
    by (simp add: rr_schedule_def)
  ultimately show ?thesis using rr_ticks_three_cycle by blast
qed

theorem rr_schedule_rotates_witness:
  "rr_schedule st_pcp = (None, st_pcp) \<and>
   fst (rr_schedule st_three) = Some 2 \<and>
   runqueue (snd (rr_schedule st_three)) = [2, 3, 1] \<and>
   rr_ticks 6 st_three = [Some 2, Some 3, Some 1, Some 2, Some 3, Some 1]"
proof -
  have q: "runqueue st_three = [1, 2, 3]" and e: "runqueue st_pcp = []"
    by (simp_all add: st_three_def st_pcp_def)
  have r: "concat (replicate 2 [Some 2, Some 3, Some (Suc 0)]) = [Some 2, Some 3, Some 1, Some 2, Some 3, Some 1]"
    by (simp add: numeral_2_eq_2)
  from rr_schedule_rotates [of st_pcp 1 "[]" 1 2 3 0] rr_schedule_rotates [of st_three 1 "[2, 3]" 1 2 3 2]
  show ?thesis using q e r by simp
qed

text \<open>
  C8 as stated fails: from the run queue \<open>[1, 2, 3]\<close> the first three selections are
  2, 3, 1 and not 1, 2, 3.
\<close>

theorem rr_first_selection_counterexample:
  "rr_ticks 3 st_three = [Some 2, Some 3, Some 1] \<and>
   rr_ticks 3 st_three \<noteq> [Some 1, Some 2, Some 3]"
  by (simp add: numeral_3_eq_3 rr_schedule_def list_first_entry_def st_three_def)

section \<open>Priority ceiling protocol\<close>

text \<open>
  C1. A process of priority 5 (also its original priority) takes a lock of ceiling 2.
  \<open>pcp_acquire\<close> succeeds, and the priority still reads 5 while the lock is held:
  the guard \<open>p->priority < p->lock->ceiling\<close> is \<open>5 < 2\<close>. Under the order of
  \<open>pcp_schedule\<close>, where the smaller number runs first, the holder was to be raised
  to 2. After \<open>pcp_release\<close> the priority is 5.
\<close>

theorem pcp_acquire_misses_ceiling:
  "fst (pcp_acquire lock_free 1 st_pcp) = 0 \<and>
   ceiling (locks st_pcp (lock (procs st_pcp 1))) = 2 \<and>
   priority (procs st_pcp 1) = 5 \<and>
   priority (procs (snd (pcp_acquire lock_free 1 st_pcp)) 1) = 5 \<and>
   priority (procs (snd (pcp_release unlock_free 1 (snd (pcp_acquire lock_free 1 st_pcp)))) 1) = 5"
  by (simp add: pcp_acquire_def pcp_release_def lock_free_def unlock_free_def st_pcp_def
        proc0_def)

text \<open>
  The guard fires only for a process that is above the ceiling already, and then
  moves it down: priority 1 against ceiling 2 becomes 2.
\<close>

lemma pcp_acquire_demotes_above_ceiling:
  "fst (pcp_acquire lock_free 1 st_pcp_low) = 0 \<and>
   priority (procs st_pcp_low 1) = 1 \<and>
   priority (procs (snd (pcp_acquire lock_free 1 st_pcp_low)) 1) = 2"
  by (simp add: pcp_acquire_def lock_free_def st_pcp_low_def proc0_def)

text \<open>
  With an \<open>acquire_lock\<close> that leaves the process record alone, the number in
  \<open>priority\<close> never gets smaller across \<open>pcp_acquire\<close>: no holder is ever made more
  urgent. \<open>orig_priority\<close> is not written.
\<close>

lemma pcp_acquire_never_raises:
  assumes "acquire_lock (lock (procs s p)) s = (rc, sa)"
    and "procs sa p = procs s p"
  shows "priority (procs s p) \<le> priority (procs (snd (pcp_acquire acquire_lock p s)) p) \<and>
         orig_priority (procs (snd (pcp_acquire acquire_lock p s)) p) = orig_priority (procs s p)"
  using assms by (simp add: pcp_acquire_def Let_def)

text \<open>
  \<open>pcp_release\<close> copies \<open>orig_priority\<close>, as \<open>release_lock\<close> left it, into
  \<open>priority\<close>.
\<close>

lemma pcp_release_restores_original:
  "priority (procs (snd (pcp_release release_lock p s)) p) =
     orig_priority (procs (release_lock (lock (procs s p)) s) p)"
  by (simp add: pcp_release_def Let_def)

section \<open>Priority inheritance protocol\<close>

text \<open>
  C9. The PIP descriptor is initialised with its name only: \<open>acquire\<close>, \<open>release\<close>
  and \<open>schedule\<close> are \<open>NULL\<close>, where the PCP descriptor beside it binds all three.
  No function of pa2.c runs when a process blocks or releases under PIP, and none
  raises a holder to the priority of a waiter.
\<close>

theorem pip_scheduler_unbound:
  "name pip_scheduler = ''Priority + Priority Inheritance Protocol'' \<and>
   acquire pip_scheduler = None \<and> release pip_scheduler = None \<and>
   schedule pip_scheduler = None \<and>
   acquire pcp_scheduler = Some Pcp_acquire \<and> release pcp_scheduler = Some Pcp_release \<and>
   schedule pcp_scheduler = Some Pcp_schedule"
  by (simp add: pip_scheduler_def pcp_scheduler_def)

text \<open>
  The default acquire and release, which the other descriptors bind, write no
  priority either.
\<close>

lemma fcfs_acquire_keeps_priorities:
  assumes "fcfs_acquire resource_id s = Inr (granted, s')"
  shows "priority (procs s' p) = priority (procs s p) \<and>
         orig_priority (procs s' p) = orig_priority (procs s p)"
  using assms
  by (auto simp: fcfs_acquire_def Let_def split: if_splits option.splits)

lemma fcfs_release_keeps_priorities:
  assumes "fcfs_release resource_id s = Inr s'"
  shows "priority (procs s' p) = priority (procs s p) \<and>
         orig_priority (procs s' p) = orig_priority (procs s p)"
  using assms
  by (auto simp: fcfs_release_def Let_def split: if_splits list.splits)

end
